theory Spec2Isabelle
  imports Main "HOL-Library.Word" "HOL-Library.Sublist"
begin

section \<open>Python values, exceptions and the opaque collaborators\<close>

text \<open>
  The module \<^verbatim>\<open>magnummsh/mesher.py\<close> wraps a native meshing engine
  (\<^verbatim>\<open>cpp.Mesher\<close>) and the mesh container \<^verbatim>\<open>dolfin.Mesh\<close>. The wrapper
  inspects very little of the values that pass through it: whether an argument is
  \<^verbatim>\<open>None\<close>, how many positional arguments there are, and the text of a path.
  Numbers are kept as Python has them: an unbounded integer, or a float given by its
  IEEE 754 binary64 bit pattern (so \<^verbatim>\<open>0.0\<close> is \<open>0\<close> and \<^verbatim>\<open>1.0\<close> is
  \<open>0x3FF0000000000000\<close>); no floating-point arithmetic is interpreted here.
  A string is a list of 8-bit characters, as \<^verbatim>\<open>str\<close> is in the Python 2 this
  module was written for. Every other object is a reference \<open>PRef a\<close>, known by its
  identity \<open>a\<close> only.
\<close>

datatype scalar = SInt int | SFloat "64 word"

datatype pyval = PNone | PNum scalar | PStr string | PRef nat | PList "pyval list"

text \<open>What \<^verbatim>\<open>numpy.array(xs, dtype="d")\<close> and \<^verbatim>\<open>numpy.array(xs, dtype="i")\<close> build.\<close>

datatype ndarray = ArrD "64 word list" | ArrI "32 word list"

text \<open>
  An exception is either the \<^verbatim>\<open>TypeError\<close> of \<^verbatim>\<open>re.match\<close> on a value that
  is no string, or something raised by a collaborator, of which only the identity matters.
\<close>

datatype 'x exn = TypeError | Raised 'x

text \<open>
  The calls that leave this module. The first argument of a method of the native engine
  is the identity of the \<^verbatim>\<open>Mesher\<close> object it is called on; for a constructor it is
  the identity of the object being constructed.
\<close>

datatype call =
    MesherInit nat
  | ReadFile nat pyval
  | CreateCuboid nat ndarray ndarray
  | CreateCelldomain nat pyval pyval
  | CreateFacetdomain nat pyval pyval
  | CreateShell nat pyval pyval ndarray pyval
  | EngineMesh nat pyval pyval
  | GetSampleSize nat pyval
  | DolfinMesh nat "pyval list" "(string \<times> pyval) list"

type_synonym 'x event = "call \<times> ('x exn + pyval)"

text \<open>
  The collaborators are parameters of the model. The engine and the mesh container answer
  a call with a value or an exception, and the answer may depend on everything that was
  called before. The conversion of one number by \<^verbatim>\<open>numpy\<close> to a C double or a C int,
  and Python's \<^verbatim>\<open>*\<close>, are functions that may raise.
\<close>

record 'x env =
  respond :: "'x event list \<Rightarrow> call \<Rightarrow> 'x exn + pyval"
  to_double :: "scalar \<Rightarrow> 'x exn + 64 word"
  to_int32 :: "scalar \<Rightarrow> 'x exn + 32 word"
  py_mul :: "pyval \<Rightarrow> pyval \<Rightarrow> 'x exn + pyval"

text \<open>
  The world outside the wrapper: the calls made so far, each with its answer, and the
  identity the next new object gets.
\<close>

record 'x world =
  trace :: "'x event list"
  next_addr :: nat

definition invoke :: "'x env \<Rightarrow> call \<Rightarrow> 'x world \<Rightarrow> ('x exn + pyval) \<times> 'x world" where
  "invoke env c w =
     (let r = respond env (trace w) c
      in (r, w\<lparr>trace := trace w @ [(c, r)]\<rparr>))"

text \<open>An argument with a default value: \<open>None\<close> is the argument left out.\<close>

definition arg_or :: "'a \<Rightarrow> 'a option \<Rightarrow> 'a" where
  "arg_or d a = (case a of None \<Rightarrow> d | Some v \<Rightarrow> v)"

subsection \<open>numpy.array on a sequence of numbers\<close>

text \<open>
  The sizes and the interval counts are lists or tuples of numbers, as the docstrings of
  \<^verbatim>\<open>create_cuboid\<close> and \<^verbatim>\<open>create_shell\<close> say. \<^verbatim>\<open>numpy.array\<close> converts
  such a sequence element by element, from the left, into an array of the same length,
  and raises what the first failing conversion raises.
\<close>

fun coerce_all :: "('a \<Rightarrow> 'e + 'b) \<Rightarrow> 'a list \<Rightarrow> 'e + 'b list" where
  "coerce_all f [] = Inr []"
| "coerce_all f (x # xs) =
     (case f x of
        Inl e \<Rightarrow> Inl e
      | Inr y \<Rightarrow> (case coerce_all f xs of Inl e \<Rightarrow> Inl e | Inr ys \<Rightarrow> Inr (y # ys)))"

definition numpy_array_d :: "'x env \<Rightarrow> scalar list \<Rightarrow> 'x exn + ndarray" where
  "numpy_array_d env xs =
     (case coerce_all (to_double env) xs of Inl e \<Rightarrow> Inl e | Inr ys \<Rightarrow> Inr (ArrD ys))"

definition numpy_array_i :: "'x env \<Rightarrow> scalar list \<Rightarrow> 'x exn + ndarray" where
  "numpy_array_i env xs =
     (case coerce_all (to_int32 env) xs of Inl e \<Rightarrow> Inl e | Inr ys \<Rightarrow> Inr (ArrI ys))"

subsection \<open>re.match\<close>

text \<open>
  The fragment of Python's regular expressions that the pattern \<^verbatim>\<open>.*[.]xml$\<close> uses,
  with no flags: \<^verbatim>\<open>.\<close> is any character but a newline, a class \<^verbatim>\<open>[...]\<close> is one
  of its characters, \<^verbatim>\<open>*\<close> repeats one atom (the longest repetition is tried first),
  and \<^verbatim>\<open>$\<close> holds at the end of the string and just before a newline that is the last
  character of the string. \<^verbatim>\<open>re.match\<close> anchors the pattern at the start of the
  string only.
\<close>

datatype atom = Dot | Cls "char list" | Lit char

datatype item = One atom | Star atom | Eol

definition newline :: char where
  "newline = CHR 0x0A"

fun atom_ok :: "atom \<Rightarrow> char \<Rightarrow> bool" where
  "atom_ok Dot c = (c \<noteq> newline)"
| "atom_ok (Cls cs) c = (c \<in> set cs)"
| "atom_ok (Lit d) c = (c = d)"

fun re_match :: "item list \<Rightarrow> string \<Rightarrow> bool" where
  "re_match [] s = True"
| "re_match (Eol # rs) s = ((s = [] \<or> s = [newline]) \<and> re_match rs s)"
| "re_match (Star a # rs) [] = re_match rs []"
| "re_match (Star a # rs) (c # cs) =
     ((atom_ok a c \<and> re_match (Star a # rs) cs) \<or> re_match rs (c # cs))"
| "re_match (One a # rs) [] = False"
| "re_match (One a # rs) (c # cs) = (atom_ok a c \<and> re_match rs cs)"

definition xml_pattern :: "item list" where
  "xml_pattern =
     [Star Dot, One (Cls ''.''), One (Lit CHR ''x''), One (Lit CHR ''m''),
      One (Lit CHR ''l''), Eol]"

text \<open>What "ends in the literal suffix" means, as \<^verbatim>\<open>str.endswith\<close> computes it.\<close>

definition endswith :: "string \<Rightarrow> string \<Rightarrow> bool" where
  "endswith s suf = (length suf \<le> length s \<and> drop (length s - length suf) s = suf)"

text \<open>
  A text with no newline in it that ends in \<^verbatim>\<open>.xml\<close>, followed by one newline
  that ends the string.
\<close>

definition xml_then_newline :: "string \<Rightarrow> bool" where
  "xml_then_newline s =
     (s \<noteq> [] \<and> last s = newline \<and> newline \<notin> set (butlast s) \<and> endswith (butlast s) ''.xml'')"

section \<open>The class Mesher\<close>

record mesher =
  ident :: nat
  celldomains :: "pyval list"
  facetdomains :: "pyval list"

text \<open>
  \<^verbatim>\<open>Mesher()\<close>: a new object, the native initialiser, then the two empty lists.
\<close>

definition Mesher_init :: "'x env \<Rightarrow> 'x world \<Rightarrow> ('x exn + mesher) \<times> 'x world" where
  "Mesher_init env w =
     (let a = next_addr w;
          (r, w') = invoke env (MesherInit a) (w\<lparr>next_addr := Suc a\<rparr>)
      in case r of
           Inl e \<Rightarrow> (Inl e, w')
         | Inr _ \<Rightarrow> (Inr \<lparr>ident = a, celldomains = [], facetdomains = []\<rparr>, w'))"

text \<open>
  \<^verbatim>\<open>dolfin.Mesh\<close> called with positional and keyword arguments: a new object,
  handed to the native constructor.
\<close>

definition dolfin_Mesh ::
  "'x env \<Rightarrow> pyval list \<Rightarrow> (string \<times> pyval) list \<Rightarrow> 'x world \<Rightarrow> ('x exn + pyval) \<times> 'x world" where
  "dolfin_Mesh env args kwargs w =
     (let a = next_addr w;
          (r, w') = invoke env (DolfinMesh a args kwargs) (w\<lparr>next_addr := Suc a\<rparr>)
      in case r of
           Inl e \<Rightarrow> (Inl e, w')
         | Inr _ \<Rightarrow> (Inr (PRef a), w'))"

text \<open>\<^verbatim>\<open>read_file\<close> is not overridden: it is the engine's method.\<close>

definition read_file ::
  "'x env \<Rightarrow> pyval \<Rightarrow> mesher \<times> 'x world \<Rightarrow> ('x exn + pyval) \<times> mesher \<times> 'x world" where
  "read_file env path bw =
     (case bw of (b, w) \<Rightarrow>
        (let (r, w') = invoke env (ReadFile (ident b) path) w in (r, b, w')))"

definition create_cuboid ::
  "'x env \<Rightarrow> scalar list \<Rightarrow> scalar list \<Rightarrow> mesher \<times> 'x world
     \<Rightarrow> ('x exn + pyval) \<times> mesher \<times> 'x world" where
  "create_cuboid env size' n bw =
     (case bw of (b, w) \<Rightarrow>
        (case numpy_array_d env size' of
           Inl e \<Rightarrow> (Inl e, b, w)
         | Inr sz \<Rightarrow>
             (case numpy_array_i env n of
                Inl e \<Rightarrow> (Inl e, b, w)
              | Inr k \<Rightarrow>
                  (let (r, w') = invoke env (CreateCuboid (ident b) sz k) w
                   in (r, b, w')))))"

definition create_celldomain ::
  "'x env \<Rightarrow> pyval \<Rightarrow> pyval \<Rightarrow> mesher \<times> 'x world
     \<Rightarrow> ('x exn + pyval) \<times> mesher \<times> 'x world" where
  "create_celldomain env domain domain_id bw =
     (case bw of (b, w) \<Rightarrow>
        (let b' = b\<lparr>celldomains := celldomains b @ [domain]\<rparr>;
             (r, w') = invoke env (CreateCelldomain (ident b') domain domain_id) w
         in (r, b', w')))"

definition create_facetdomain ::
  "'x env \<Rightarrow> pyval \<Rightarrow> pyval \<Rightarrow> mesher \<times> 'x world
     \<Rightarrow> ('x exn + pyval) \<times> mesher \<times> 'x world" where
  "create_facetdomain env domain domain_id bw =
     (case bw of (b, w) \<Rightarrow>
        (let b' = b\<lparr>facetdomains := facetdomains b @ [domain]\<rparr>;
             (r, w') = invoke env (CreateFacetdomain (ident b') domain domain_id) w
         in (r, b', w')))"

definition float_0_0 :: pyval where
  "float_0_0 = PNum (SFloat 0)"

definition float_1_0 :: pyval where
  "float_1_0 = PNum (SFloat 0x3FF0000000000000)"

definition create_shell ::
  "'x env \<Rightarrow> pyval \<Rightarrow> pyval option \<Rightarrow> scalar list option \<Rightarrow> pyval option
     \<Rightarrow> mesher \<times> 'x world \<Rightarrow> ('x exn + pyval) \<times> mesher \<times> 'x world" where
  "create_shell env d margin n progression bw =
     (case bw of (b, w) \<Rightarrow>
        (let margin' = arg_or float_0_0 margin;
             n' = arg_or [SInt 0, SInt 0, SInt 0] n;
             progression' = arg_or float_1_0 progression
         in case numpy_array_i env n' of
              Inl e \<Rightarrow> (Inl e, b, w)
            | Inr k \<Rightarrow>
                (let (r, w') = invoke env (CreateShell (ident b) d margin' k progression') w
                 in (r, b, w'))))"

text \<open>
  The second parameter of \<^verbatim>\<open>mesh\<close>, named \<^verbatim>\<open>mesh\<close> in the source, is \<open>target\<close>
  here.
\<close>

definition mesh ::
  "'x env \<Rightarrow> pyval option \<Rightarrow> pyval option \<Rightarrow> mesher \<times> 'x world
     \<Rightarrow> ('x exn + pyval) \<times> mesher \<times> 'x world" where
  "mesh env scale target bw =
     (case bw of (b, w) \<Rightarrow>
        (let scale' = arg_or float_1_0 scale;
             m = arg_or PNone target
         in case (if m = PNone then dolfin_Mesh env [] [] w else (Inr m, w)) of
              (Inl e, w1) \<Rightarrow> (Inl e, b, w1)
            | (Inr m', w1) \<Rightarrow>
                (let (r, w2) = invoke env (EngineMesh (ident b) m' scale') w1
                 in case r of
                      Inl e \<Rightarrow> (Inl e, b, w2)
                    | Inr _ \<Rightarrow> (Inr m', b, w2))))"

text \<open>The loop \<^verbatim>\<open>for i in range(3)\<close> of \<^verbatim>\<open>get_sample_size\<close>, over the indices left.\<close>

fun sample_loop ::
  "'x env \<Rightarrow> nat \<Rightarrow> pyval \<Rightarrow> int list \<Rightarrow> pyval list \<Rightarrow> 'x world
     \<Rightarrow> ('x exn + pyval) \<times> 'x world" where
  "sample_loop env h scale [] size' w = (Inr (PList size'), w)"
| "sample_loop env h scale (i # is) size' w =
     (let (r, w') = invoke env (GetSampleSize h (PNum (SInt i))) w
      in case r of
           Inl e \<Rightarrow> (Inl e, w')
         | Inr v \<Rightarrow>
             (case py_mul env v scale of
                Inl e \<Rightarrow> (Inl e, w')
              | Inr p \<Rightarrow> sample_loop env h scale is (size' @ [p]) w'))"

definition get_sample_size ::
  "'x env \<Rightarrow> pyval option \<Rightarrow> pyval option \<Rightarrow> mesher \<times> 'x world
     \<Rightarrow> ('x exn + pyval) \<times> mesher \<times> 'x world" where
  "get_sample_size env i scale bw =
     (case bw of (b, w) \<Rightarrow>
        (let i' = arg_or PNone i;
             scale' = arg_or float_1_0 scale
         in if i' \<noteq> PNone then
              (let (r, w') = invoke env (GetSampleSize (ident b) i') w
               in case r of
                    Inl e \<Rightarrow> (Inl e, b, w')
                  | Inr v \<Rightarrow> (py_mul env v scale', b, w'))
            else
              (let (r, w') = sample_loop env (ident b) scale' [0, 1, 2] [] w
               in (r, b, w'))))"

section \<open>The function Mesh\<close>

text \<open>
  The test \<^verbatim>\<open>len(args) == 1 and not re.match(r'.*[.]xml$', args[0])\<close> looks at the
  positional arguments only. With one positional argument that is no string,
  \<^verbatim>\<open>re.match\<close> raises \<^verbatim>\<open>TypeError\<close> and nothing is called.
\<close>

definition Mesh ::
  "'x env \<Rightarrow> pyval list \<Rightarrow> (string \<times> pyval) list \<Rightarrow> 'x world \<Rightarrow> ('x exn + pyval) \<times> 'x world" where
  "Mesh env args kwargs w =
     (case args of
        [a] \<Rightarrow>
          (case a of
             PStr s \<Rightarrow>
               (if \<not> re_match xml_pattern s then
                  (case Mesher_init env w of
                     (Inl e, w1) \<Rightarrow> (Inl e, w1)
                   | (Inr mesher, w1) \<Rightarrow>
                       (case read_file env (PStr s) (mesher, w1) of
                          (Inl e, b2, w2) \<Rightarrow> (Inl e, w2)
                        | (Inr _, b2, w2) \<Rightarrow>
                            (case mesh env None None (b2, w2) of (r, b3, w3) \<Rightarrow> (r, w3))))
                else dolfin_Mesh env args kwargs w)
           | _ \<Rightarrow> (Inl TypeError, w))
      | _ \<Rightarrow> dolfin_Mesh env args kwargs w)"

section \<open>Clients of a Mesher\<close>

text \<open>
  A client holds one \<^verbatim>\<open>Mesher\<close> and calls its methods one after another, going on
  whatever a call returned or raised.
\<close>

datatype op =
    OpReadFile pyval
  | OpCreateCuboid "scalar list" "scalar list"
  | OpCreateCelldomain pyval pyval
  | OpCreateFacetdomain pyval pyval
  | OpCreateShell pyval "pyval option" "scalar list option" "pyval option"
  | OpMesh "pyval option" "pyval option"
  | OpGetSampleSize "pyval option" "pyval option"

fun run_op ::
  "'x env \<Rightarrow> op \<Rightarrow> mesher \<times> 'x world \<Rightarrow> ('x exn + pyval) \<times> mesher \<times> 'x world" where
  "run_op env (OpReadFile path) bw = read_file env path bw"
| "run_op env (OpCreateCuboid size' n) bw = create_cuboid env size' n bw"
| "run_op env (OpCreateCelldomain domain domain_id) bw = create_celldomain env domain domain_id bw"
| "run_op env (OpCreateFacetdomain domain domain_id) bw = create_facetdomain env domain domain_id bw"
| "run_op env (OpCreateShell d margin n progression) bw = create_shell env d margin n progression bw"
| "run_op env (OpMesh scale target) bw = mesh env scale target bw"
| "run_op env (OpGetSampleSize i scale) bw = get_sample_size env i scale bw"

fun run_ops ::
  "'x env \<Rightarrow> op list \<Rightarrow> mesher \<times> 'x world \<Rightarrow> ('x exn + pyval) list \<times> mesher \<times> 'x world" where
  "run_ops env [] bw = ([], bw)"
| "run_ops env (p # ps) bw =
     (case run_op env p bw of
        (r, bw') \<Rightarrow> (case run_ops env ps bw' of (rs, bw'') \<Rightarrow> (r # rs, bw'')))"

text \<open>The classifiers a sequence of calls passes to each of the two domain methods.\<close>

fun cell_classifiers :: "op list \<Rightarrow> pyval list" where
  "cell_classifiers [] = []"
| "cell_classifiers (OpCreateCelldomain domain domain_id # ps) = domain # cell_classifiers ps"
| "cell_classifiers (p # ps) = cell_classifiers ps"

fun facet_classifiers :: "op list \<Rightarrow> pyval list" where
  "facet_classifiers [] = []"
| "facet_classifiers (OpCreateFacetdomain domain domain_id # ps) = domain # facet_classifiers ps"
| "facet_classifiers (p # ps) = facet_classifiers ps"

text \<open>The calls made between two states of the world, each with its answer.\<close>

definition new_events :: "'x world \<Rightarrow> 'x world \<Rightarrow> 'x event list" where
  "new_events w w' = drop (length (trace w)) (trace w')"

text \<open>
  An exception of a collaborator reaches the caller: in the calls \<open>evs\<close> made by an
  operation whose result is \<open>r\<close>, a call that raised is the last call made, and what it
  raised is what the operation raises.
\<close>

fun propagated :: "('e + 'a) \<Rightarrow> (call \<times> ('e + pyval)) list \<Rightarrow> bool" where
  "propagated r [] = True"
| "propagated r ((c, Inr v) # evs) = propagated r evs"
| "propagated r ((c, Inl e) # evs) = (evs = [] \<and> (case r of Inl e' \<Rightarrow> e' = e | Inr v \<Rightarrow> False))"

section \<open>Two sample environments\<close>

text \<open>
  An engine on which every call succeeds: a size query for axis \<open>i\<close> answers \<open>10 + i\<close>,
  every other call answers \<^verbatim>\<open>None\<close>. Conversions keep a number of the target's
  kind (an integer that fits 32 bits, a float) and raise on the other kind; \<^verbatim>\<open>*\<close> is
  the product of two integers and raises on anything else.
\<close>

definition sample_env :: "unit env" where
  "sample_env =
     \<lparr>respond = (\<lambda>evs c. case c of
                   GetSampleSize h (PNum (SInt i)) \<Rightarrow> Inr (PNum (SInt (10 + i)))
                 | _ \<Rightarrow> Inr PNone),
      to_double = (\<lambda>x. case x of SFloat f \<Rightarrow> Inr f | SInt k \<Rightarrow> Inl (Raised ())),
      to_int32 = (\<lambda>x. case x of
                    SInt k \<Rightarrow> if - (2 ^ 31) \<le> k \<and> k < 2 ^ 31 then Inr (word_of_int k)
                              else Inl (Raised ())
                  | SFloat f \<Rightarrow> Inl (Raised ())),
      py_mul = (\<lambda>x y. case (x, y) of
                  (PNum (SInt a), PNum (SInt b)) \<Rightarrow> Inr (PNum (SInt (a * b)))
                | _ \<Rightarrow> Inl (Raised ()))\<rparr>"

text \<open>An engine whose every method raises; only the two constructors succeed.\<close>

definition broken_env :: "unit env" where
  "broken_env =
     sample_env\<lparr>respond := (\<lambda>evs c. case c of
                                  MesherInit a \<Rightarrow> Inr PNone
                                | DolfinMesh a args kwargs \<Rightarrow> Inr PNone
                                | _ \<Rightarrow> Inl (Raised ()))\<rparr>"

definition world0 :: "unit world" where
  "world0 = \<lparr>trace = [], next_addr = 0\<rparr>"

definition mesher0 :: mesher where
  "mesher0 = \<lparr>ident = 0, celldomains = [], facetdomains = []\<rparr>"

section \<open>What the pattern matches\<close>

lemma re_match_star_dot:
  "re_match (Star Dot # rs) s \<longleftrightarrow>
     (\<exists>k\<le>length s. newline \<notin> set (take k s) \<and> re_match rs (drop k s))"
proof (induction s)
  case Nil
  show ?case by simp
next
  case (Cons c cs)
  show ?case
  proof
    assume "re_match (Star Dot # rs) (c # cs)"
    then consider (more) "c \<noteq> newline" "re_match (Star Dot # rs) cs" | (stop) "re_match rs (c # cs)"
      by auto
    then show "\<exists>k\<le>length (c # cs). newline \<notin> set (take k (c # cs)) \<and> re_match rs (drop k (c # cs))"
    proof cases
      case more
      then obtain k where "k \<le> length cs" "newline \<notin> set (take k cs)" "re_match rs (drop k cs)"
        using Cons.IH by blast
      with more(1) show ?thesis by (intro exI [of _ "Suc k"]) simp
    next
      case stop
      then show ?thesis by (intro exI [of _ 0]) simp
    qed
  next
    assume "\<exists>k\<le>length (c # cs). newline \<notin> set (take k (c # cs)) \<and> re_match rs (drop k (c # cs))"
    then obtain k where k: "k \<le> length (c # cs)" "newline \<notin> set (take k (c # cs))"
      "re_match rs (drop k (c # cs))" by blast
    show "re_match (Star Dot # rs) (c # cs)"
    proof (cases k)
      case 0
      with k show ?thesis by simp
    next
      case (Suc j)
      with k have "c \<noteq> newline" "j \<le> length cs" "newline \<notin> set (take j cs)" "re_match rs (drop j cs)"
        by auto
      then show ?thesis using Cons.IH by auto
    qed
  qed
qed

lemma re_match_One:
  "re_match (One a # rs) t \<longleftrightarrow> (\<exists>c cs. t = c # cs \<and> atom_ok a c \<and> re_match rs cs)"
  by (cases t) simp_all

lemma re_match_xml_tail:
  "re_match [One (Cls ''.''), One (Lit CHR ''x''), One (Lit CHR ''m''), One (Lit CHR ''l''), Eol] t
     \<longleftrightarrow> t = ''.xml'' \<or> t = ''.xml'' @ [newline]"
  by (auto simp: re_match_One)

lemma re_match_xml_pattern:
  "re_match xml_pattern s \<longleftrightarrow>
     (\<exists>k\<le>length s. newline \<notin> set (take k s) \<and>
        (drop k s = ''.xml'' \<or> drop k s = ''.xml'' @ [newline]))"
  unfolding xml_pattern_def re_match_star_dot re_match_xml_tail ..

lemma endswith_append: "endswith (p @ suf) suf"
  by (simp add: endswith_def)

lemma xml_pattern_iff:
  "re_match xml_pattern s \<longleftrightarrow> (newline \<notin> set s \<and> endswith s ''.xml'') \<or> xml_then_newline s"
proof
  assume "re_match xml_pattern s"
  then obtain k where k: "k \<le> length s" "newline \<notin> set (take k s)"
    and t: "drop k s = ''.xml'' \<or> drop k s = ''.xml'' @ [newline]"
    unfolding re_match_xml_pattern by blast
  have s: "s = take k s @ drop k s" by simp
  from t show "(newline \<notin> set s \<and> endswith s ''.xml'') \<or> xml_then_newline s"
  proof
    assume d: "drop k s = ''.xml''"
    then have s': "s = take k s @ ''.xml''" using s by simp
    have "newline \<notin> set (take k s @ ''.xml'')" using k(2) by (simp add: newline_def)
    moreover have "endswith (take k s @ ''.xml'') ''.xml''" by (rule endswith_append)
    ultimately show ?thesis using s' by metis
  next
    assume d: "drop k s = ''.xml'' @ [newline]"
    then have s': "s = (take k s @ ''.xml'') @ [newline]" using s by simp
    have "newline \<notin> set (take k s @ ''.xml'')" using k(2) by (simp add: newline_def)
    moreover have "endswith (take k s @ ''.xml'') ''.xml''" by (rule endswith_append)
    ultimately have "xml_then_newline ((take k s @ ''.xml'') @ [newline])"
      unfolding xml_then_newline_def by (simp only: butlast_snoc last_snoc) simp
    then show ?thesis using s' by metis
  qed
next
  assume "(newline \<notin> set s \<and> endswith s ''.xml'') \<or> xml_then_newline s"
  then show "re_match xml_pattern s"
  proof
    assume a: "newline \<notin> set s \<and> endswith s ''.xml''"
    let ?k = "length s - length ''.xml''"
    have "drop ?k s = ''.xml''" using a by (simp add: endswith_def)
    moreover have "newline \<notin> set (take ?k s)" using a by (meson in_set_takeD)
    ultimately show ?thesis unfolding re_match_xml_pattern
      by (intro exI [of _ ?k]) simp
  next
    assume a: "xml_then_newline s"
    define p where "p = butlast s"
    have s: "s = p @ [newline]" and n: "newline \<notin> set p" and e: "endswith p ''.xml''"
      using a unfolding xml_then_newline_def p_def by (metis append_butlast_last_id)+
    let ?k = "length p - length ''.xml''"
    have le: "length ''.xml'' \<le> length p" and d: "drop ?k p = ''.xml''"
      using e by (simp_all add: endswith_def)
    have "drop ?k s = ''.xml'' @ [newline]" using d le s by simp
    moreover have "newline \<notin> set (take ?k s)" using n s by (auto dest: in_set_takeD)
    moreover have "?k \<le> length s" using s by simp
    ultimately show ?thesis unfolding re_match_xml_pattern by blast
  qed
qed


section \<open>The methods of Mesher\<close>

lemma invoke_eq:
  "invoke env c w = (respond env (trace w) c, w\<lparr>trace := trace w @ [(c, respond env (trace w) c)]\<rparr>)"
  by (simp add: invoke_def Let_def)

lemmas route_defs =
  Mesher_init_def read_file_def mesh_def dolfin_Mesh_def invoke_eq arg_or_def
  new_events_def float_1_0_def Let_def

lemmas sample_defs = sample_env_def broken_env_def world0_def mesher0_def

text \<open>
  C9. \<^verbatim>\<open>create_celldomain\<close> and \<^verbatim>\<open>create_facetdomain\<close> append the classifier to
  the mesher's list before they call the engine. So when the engine raises, the exception
  reaches the caller and the classifier is in the list all the same: the failed call has
  changed the mesher.
\<close>

theorem domain_retained_when_engine_raises:
  "(respond env (trace w) (CreateCelldomain (ident b) domain domain_id) = Inl e \<longrightarrow>
      create_celldomain env domain domain_id (b, w) =
        (Inl e, b\<lparr>celldomains := celldomains b @ [domain]\<rparr>,
         w\<lparr>trace := trace w @ [(CreateCelldomain (ident b) domain domain_id, Inl e)]\<rparr>)) \<and>
   (respond env (trace w) (CreateFacetdomain (ident b) domain domain_id) = Inl e \<longrightarrow>
      create_facetdomain env domain domain_id (b, w) =
        (Inl e, b\<lparr>facetdomains := facetdomains b @ [domain]\<rparr>,
         w\<lparr>trace := trace w @ [(CreateFacetdomain (ident b) domain domain_id, Inl e)]\<rparr>))"
  by (simp add: create_celldomain_def create_facetdomain_def invoke_eq)

theorem domain_retained_witness:
  "respond broken_env (trace world0) (CreateCelldomain (ident mesher0) (PRef 7) (PNum (SInt 1)))
     = Inl (Raised ()) \<and>
   create_celldomain broken_env (PRef 7) (PNum (SInt 1)) (mesher0, world0) =
     (Inl (Raised ()), \<lparr>ident = 0, celldomains = [PRef 7], facetdomains = []\<rparr>,
      \<lparr>trace = [(CreateCelldomain 0 (PRef 7) (PNum (SInt 1)), Inl (Raised ()))], next_addr = 0\<rparr>) \<and>
   respond broken_env (trace world0) (CreateFacetdomain (ident mesher0) (PRef 7) (PNum (SInt 1)))
     = Inl (Raised ()) \<and>
   create_facetdomain broken_env (PRef 7) (PNum (SInt 1)) (mesher0, world0) =
     (Inl (Raised ()), \<lparr>ident = 0, celldomains = [], facetdomains = [PRef 7]\<rparr>,
      \<lparr>trace = [(CreateFacetdomain 0 (PRef 7) (PNum (SInt 1)), Inl (Raised ()))], next_addr = 0\<rparr>)"
  using domain_retained_when_engine_raises
    [of broken_env world0 mesher0 "PRef 7" "PNum (SInt 1)" "Raised ()"]
  by (simp add: broken_env_def sample_env_def world0_def mesher0_def)

lemmas op_defs =
  read_file_def create_cuboid_def create_celldomain_def create_facetdomain_def
  create_shell_def mesh_def get_sample_size_def

lemma run_op_lists:
  "run_op env p (b, w) = (r, b', w') \<Longrightarrow>
     celldomains b' = celldomains b @ cell_classifiers [p] \<and>
     facetdomains b' = facetdomains b @ facet_classifiers [p]"
  by (cases p) (auto simp: op_defs Let_def split: sum.splits prod.splits if_splits)

lemma cell_classifiers_Cons: "cell_classifiers (p # ps) = cell_classifiers [p] @ cell_classifiers ps"
  by (cases p) simp_all

lemma facet_classifiers_Cons: "facet_classifiers (p # ps) = facet_classifiers [p] @ facet_classifiers ps"
  by (cases p) simp_all

lemma cell_classifiers_append: "cell_classifiers (ps @ qs) = cell_classifiers ps @ cell_classifiers qs"
  by (induction ps rule: cell_classifiers.induct) simp_all

lemma facet_classifiers_append: "facet_classifiers (ps @ qs) = facet_classifiers ps @ facet_classifiers qs"
  by (induction ps rule: facet_classifiers.induct) simp_all

lemma run_ops_lists:
  "run_ops env ps (b, w) = (rs, b', w') \<Longrightarrow>
     celldomains b' = celldomains b @ cell_classifiers ps \<and>
     facetdomains b' = facetdomains b @ facet_classifiers ps"
proof (induction ps arbitrary: b w rs b' w')
  case Nil
  then show ?case by simp
next
  case (Cons p ps)
  obtain r b1 w1 where 1: "run_op env p (b, w) = (r, b1, w1)" by (metis prod_cases3)
  obtain rs2 b2 w2 where 2: "run_ops env ps (b1, w1) = (rs2, b2, w2)" by (metis prod_cases3)
  from Cons.prems 1 2 have "b' = b2" by simp
  with run_op_lists [OF 1] Cons.IH [OF 2] show ?case
    by (simp add: cell_classifiers_Cons [of p ps] facet_classifiers_Cons [of p ps])
qed

text \<open>
  C3. Whatever a client calls on a mesher, in whatever order and whatever the engine
  answers, the two lists afterwards are the lists before followed by the classifiers
  passed to \<^verbatim>\<open>create_celldomain\<close> (to \<^verbatim>\<open>create_facetdomain\<close>) in the order
  of the calls: each classifier is appended, none of the other methods touches the lists,
  and the lists after a sequence of calls are prefixes of the lists after any longer one.
\<close>

theorem classifier_lists_only_grow:
  "(case run_ops env ps (b, w) of
      (rs, b', w') \<Rightarrow>
        celldomains b' = celldomains b @ cell_classifiers ps \<and>
        facetdomains b' = facetdomains b @ facet_classifiers ps) \<and>
   prefix (celldomains (fst (snd (run_ops env ps (b, w)))))
          (celldomains (fst (snd (run_ops env (ps @ qs) (b, w))))) \<and>
   prefix (facetdomains (fst (snd (run_ops env ps (b, w)))))
          (facetdomains (fst (snd (run_ops env (ps @ qs) (b, w)))))"
proof -
  obtain rs b1 w1 where 1: "run_ops env ps (b, w) = (rs, b1, w1)" by (metis prod_cases3)
  obtain rs2 b2 w2 where 2: "run_ops env (ps @ qs) (b, w) = (rs2, b2, w2)" by (metis prod_cases3)
  show ?thesis
    using run_ops_lists [OF 1] run_ops_lists [OF 2]
    by (simp add: 1 2 cell_classifiers_append facet_classifiers_append)
qed

theorem classifier_lists_witness:
  "celldomains (fst (snd (run_ops broken_env
      [OpCreateCelldomain (PRef 7) (PNum (SInt 1)), OpMesh None None,
       OpCreateFacetdomain (PRef 8) (PNum (SInt 2)), OpGetSampleSize None None,
       OpCreateCelldomain (PRef 9) (PNum (SInt 3))] (mesher0, world0)))) = [PRef 7, PRef 9] \<and>
   facetdomains (fst (snd (run_ops broken_env
      [OpCreateCelldomain (PRef 7) (PNum (SInt 1)), OpMesh None None,
       OpCreateFacetdomain (PRef 8) (PNum (SInt 2)), OpGetSampleSize None None,
       OpCreateCelldomain (PRef 9) (PNum (SInt 3))] (mesher0, world0)))) = [PRef 8]"
  using classifier_lists_only_grow
    [where env = broken_env and b = mesher0 and w = world0 and qs = "[]" and ps =
      "[OpCreateCelldomain (PRef 7) (PNum (SInt 1)), OpMesh None None,
        OpCreateFacetdomain (PRef 8) (PNum (SInt 2)), OpGetSampleSize None None,
        OpCreateCelldomain (PRef 9) (PNum (SInt 3))]"]
  by (simp add: mesher0_def case_prod_beta)

text \<open>
  C4. \<^verbatim>\<open>mesh\<close> with no target (or with \<^verbatim>\<open>None\<close> for it) constructs a new mesh
  container, whose identity no earlier object has and which is not \<^verbatim>\<open>None\<close>, hands
  it with the scale to the engine's meshing routine and returns it. With a target it
  makes the one call of the meshing routine on that target and returns the target
  itself. In both cases an exception of a call is the result instead.
\<close>

theorem mesh_returns_new_or_given_target:
  "(target = None \<or> target = Some PNone \<longrightarrow>
      (let a = next_addr w;
           c1 = DolfinMesh a [] [];
           r1 = respond env (trace w) c1;
           c2 = EngineMesh (ident b) (PRef a)
                  (case scale of None \<Rightarrow> PNum (SFloat 0x3FF0000000000000) | Some x \<Rightarrow> x);
           r2 = respond env (trace w @ [(c1, r1)]) c2
       in mesh env scale target (b, w) =
            (case r1 of
               Inl e \<Rightarrow> (Inl e, b, w\<lparr>trace := trace w @ [(c1, r1)], next_addr := Suc a\<rparr>)
             | Inr u \<Rightarrow>
                 (case r2 of Inl e \<Rightarrow> Inl e | Inr v \<Rightarrow> Inr (PRef a), b,
                  w\<lparr>trace := trace w @ [(c1, r1), (c2, r2)], next_addr := Suc a\<rparr>)))) \<and>
   (target = Some m \<and> m \<noteq> PNone \<longrightarrow>
      (let c = EngineMesh (ident b) m
                 (case scale of None \<Rightarrow> PNum (SFloat 0x3FF0000000000000) | Some x \<Rightarrow> x);
           r = respond env (trace w) c
       in mesh env scale target (b, w) =
            (case r of Inl e \<Rightarrow> Inl e | Inr v \<Rightarrow> Inr m, b, w\<lparr>trace := trace w @ [(c, r)]\<rparr>)))"
  by (auto simp: mesh_def dolfin_Mesh_def invoke_eq arg_or_def float_1_0_def Let_def
      split: sum.splits option.splits)

theorem mesh_target_witness:
  "mesh sample_env None None (mesher0, world0) =
     (Inr (PRef 0), mesher0,
      \<lparr>trace = [(DolfinMesh 0 [] [], Inr PNone),
                (EngineMesh 0 (PRef 0) (PNum (SFloat 0x3FF0000000000000)), Inr PNone)],
       next_addr = 1\<rparr>) \<and>
   PRef 0 \<noteq> PNone \<and> PRef 4 \<noteq> PNone \<and>
   mesh sample_env (Some (PNum (SInt 2))) (Some (PRef 4)) (mesher0, world0) =
     (Inr (PRef 4), mesher0,
      \<lparr>trace = [(EngineMesh 0 (PRef 4) (PNum (SInt 2)), Inr PNone)], next_addr = 0\<rparr>)"
proof -
  have a: "mesh sample_env None None (mesher0, world0) =
     (Inr (PRef 0), mesher0,
      \<lparr>trace = [(DolfinMesh 0 [] [], Inr PNone),
                (EngineMesh 0 (PRef 0) (PNum (SFloat 0x3FF0000000000000)), Inr PNone)],
       next_addr = 1\<rparr>)"
    by (simp add: route_defs sample_defs)
  have b: "mesh sample_env (Some (PNum (SInt 2))) (Some (PRef 4)) (mesher0, world0) =
     (Inr (PRef 4), mesher0,
      \<lparr>trace = [(EngineMesh 0 (PRef 4) (PNum (SInt 2)), Inr PNone)], next_addr = 0\<rparr>)"
    by (simp add: route_defs sample_defs)
  show ?thesis
    using a b
      mesh_returns_new_or_given_target
        [where env = sample_env and scale = None and target = None and b = mesher0 and w = world0]
      mesh_returns_new_or_given_target
        [where env = sample_env and scale = "Some (PNum (SInt 2))" and target = "Some (PRef 4)"
           and m = "PRef 4" and b = mesher0 and w = world0]
    by simp
qed

text \<open>
  C5. For every scale, \<^verbatim>\<open>get_sample_size\<close> with no axis is the three calls with
  axis 0, 1 and 2 one after the other, stopped by the first that raises, and returns the
  list of their three results in this order. With an axis it asks the engine for the
  size along that axis and returns it times the scale (\<^verbatim>\<open>1.0\<close> when left out).
\<close>

theorem get_sample_size_all_axes:
  "get_sample_size env None scale (b, w) =
     (case get_sample_size env (Some (PNum (SInt 0))) scale (b, w) of
        (Inl e, bw1) \<Rightarrow> (Inl e, bw1)
      | (Inr x0, bw1) \<Rightarrow>
          (case get_sample_size env (Some (PNum (SInt 1))) scale bw1 of
             (Inl e, bw2) \<Rightarrow> (Inl e, bw2)
           | (Inr x1, bw2) \<Rightarrow>
               (case get_sample_size env (Some (PNum (SInt 2))) scale bw2 of
                  (Inl e, bw3) \<Rightarrow> (Inl e, bw3)
                | (Inr x2, bw3) \<Rightarrow> (Inr (PList [x0, x1, x2]), bw3)))) \<and>
   (i \<noteq> PNone \<longrightarrow>
      (let c = GetSampleSize (ident b) i; r = respond env (trace w) c
       in get_sample_size env (Some i) scale (b, w) =
            (case r of
               Inl e \<Rightarrow> Inl e
             | Inr v \<Rightarrow> py_mul env v
                          (case scale of None \<Rightarrow> PNum (SFloat 0x3FF0000000000000) | Some x \<Rightarrow> x),
             b, w\<lparr>trace := trace w @ [(c, r)]\<rparr>)))"
  by (auto simp: get_sample_size_def invoke_eq arg_or_def float_1_0_def Let_def
      split: sum.splits option.splits)

theorem get_sample_size_witness:
  "PNum (SInt 1) \<noteq> PNone \<and>
   get_sample_size sample_env (Some (PNum (SInt 1))) (Some (PNum (SInt 2))) (mesher0, world0) =
     (Inr (PNum (SInt 22)), mesher0,
      \<lparr>trace = [(GetSampleSize 0 (PNum (SInt 1)), Inr (PNum (SInt 11)))], next_addr = 0\<rparr>) \<and>
   get_sample_size sample_env None (Some (PNum (SInt 2))) (mesher0, world0) =
     (Inr (PList [PNum (SInt 20), PNum (SInt 22), PNum (SInt 24)]), mesher0,
      \<lparr>trace = [(GetSampleSize 0 (PNum (SInt 0)), Inr (PNum (SInt 10))),
                (GetSampleSize 0 (PNum (SInt 1)), Inr (PNum (SInt 11))),
                (GetSampleSize 0 (PNum (SInt 2)), Inr (PNum (SInt 12)))],
       next_addr = 0\<rparr>)"
proof -
  have a: "get_sample_size sample_env (Some (PNum (SInt 1))) (Some (PNum (SInt 2))) (mesher0, world0) =
     (Inr (PNum (SInt 22)), mesher0,
      \<lparr>trace = [(GetSampleSize 0 (PNum (SInt 1)), Inr (PNum (SInt 11)))], next_addr = 0\<rparr>)"
    by (simp add: get_sample_size_def invoke_eq arg_or_def Let_def sample_defs)
  have b: "get_sample_size sample_env None (Some (PNum (SInt 2))) (mesher0, world0) =
     (Inr (PList [PNum (SInt 20), PNum (SInt 22), PNum (SInt 24)]), mesher0,
      \<lparr>trace = [(GetSampleSize 0 (PNum (SInt 0)), Inr (PNum (SInt 10))),
                (GetSampleSize 0 (PNum (SInt 1)), Inr (PNum (SInt 11))),
                (GetSampleSize 0 (PNum (SInt 2)), Inr (PNum (SInt 12)))],
       next_addr = 0\<rparr>)"
    by (simp add: get_sample_size_def invoke_eq arg_or_def Let_def sample_defs)
  show ?thesis
    using a b
      get_sample_size_all_axes
        [where env = sample_env and i = "PNum (SInt 1)" and scale = "Some (PNum (SInt 2))"
           and b = mesher0 and w = world0]
    by simp
qed

lemma coerce_all_Inr_iff: "coerce_all f xs = Inr ys \<longleftrightarrow> map f xs = map Inr ys"
proof (induction xs arbitrary: ys)
  case Nil
  show ?case by auto
next
  case (Cons x xs)
  show ?case
  proof (cases "f x")
    case (Inl e)
    then show ?thesis by (cases ys) auto
  next
    case (Inr y)
    show ?thesis
    proof (cases "coerce_all f xs")
      case (Inl e)
      then have "\<And>zs. map f xs \<noteq> map Inr zs" using Cons.IH by auto
      with Inl Inr show ?thesis by (cases ys) auto
    next
      case r: (Inr zs)
      then have "map f xs = map Inr zs" using Cons.IH by simp
      with r Inr show ?thesis by (cases ys) (auto simp: inj_map_eq_map)
    qed
  qed
qed

text \<open>
  C6. When \<^verbatim>\<open>numpy\<close> converts each number of \<open>size\<close> to a double and each number of
  \<open>n\<close> to a C int, \<^verbatim>\<open>create_cuboid\<close> makes one call, the engine's
  \<^verbatim>\<open>create_cuboid\<close> with the array of these doubles and the array of these ints,
  each as long as the sequence it comes from, and returns the engine's answer. The
  numbers are not looked at in any other way: zero or negative ones are forwarded too.
\<close>

theorem create_cuboid_forwards_coerced_vectors:
  assumes "map (to_double env) size' = map Inr ds" and "map (to_int32 env) n = map Inr ks"
  shows "create_cuboid env size' n (b, w) =
           (let c = CreateCuboid (ident b) (ArrD ds) (ArrI ks); r = respond env (trace w) c
            in (r, b, w\<lparr>trace := trace w @ [(c, r)]\<rparr>)) \<and>
         length ds = length size' \<and> length ks = length n"
proof -
  have "coerce_all (to_double env) size' = Inr ds" "coerce_all (to_int32 env) n = Inr ks"
    using assms by (simp_all add: coerce_all_Inr_iff)
  moreover have "length ds = length size'" "length ks = length n"
    using assms by (metis length_map)+
  ultimately show ?thesis
    by (simp add: create_cuboid_def numpy_array_d_def numpy_array_i_def invoke_eq Let_def)
qed

theorem create_cuboid_witness:
  "map (to_double sample_env) [SFloat 0, SFloat 0xBFF0000000000000, SFloat 0x4014000000000000]
     = map Inr [0, 0xBFF0000000000000, 0x4014000000000000] \<and>
   map (to_int32 sample_env) [SInt 0, SInt (- 3), SInt 20] = map Inr [0, - 3, 20] \<and>
   create_cuboid sample_env [SFloat 0, SFloat 0xBFF0000000000000, SFloat 0x4014000000000000]
       [SInt 0, SInt (- 3), SInt 20] (mesher0, world0) =
     (Inr PNone, mesher0,
      \<lparr>trace = [(CreateCuboid 0 (ArrD [0, 0xBFF0000000000000, 0x4014000000000000])
                   (ArrI [0, - 3, 20]), Inr PNone)],
       next_addr = 0\<rparr>)"
proof -
  have h1: "map (to_double sample_env) [SFloat 0, SFloat 0xBFF0000000000000, SFloat 0x4014000000000000]
     = map Inr [0, 0xBFF0000000000000, 0x4014000000000000]"
    by (simp add: sample_env_def)
  have h2: "map (to_int32 sample_env) [SInt 0, SInt (- 3), SInt 20] = map Inr [0, - 3, 20]"
    by (simp add: sample_env_def)
  have r: "respond sample_env [] (CreateCuboid 0 (ArrD [0, 0xBFF0000000000000, 0x4014000000000000])
                   (ArrI [0, - 3, 20])) = Inr PNone"
    by (simp add: sample_env_def)
  show ?thesis
    using h1 h2 create_cuboid_forwards_coerced_vectors [OF h1 h2, where b = mesher0 and w = world0]
    by (simp add: r world0_def mesher0_def Let_def)
qed

text \<open>
  C7. \<^verbatim>\<open>create_shell\<close> converts \<open>n\<close> to an array of C ints, as long as \<open>n\<close>, and
  makes one call, the engine's \<^verbatim>\<open>create_shell\<close> with \<open>d\<close>, the margin, that array
  and the progression, in this order. A margin left out is \<^verbatim>\<open>0.0\<close>, an \<open>n\<close> left
  out is \<^verbatim>\<open>(0, 0, 0)\<close>, a progression left out is \<^verbatim>\<open>1.0\<close>.
\<close>

theorem create_shell_forwards_with_defaults:
  assumes "map (to_int32 env) (case n of None \<Rightarrow> [SInt 0, SInt 0, SInt 0] | Some xs \<Rightarrow> xs)
             = map Inr ks"
  shows "create_shell env d margin n progression (b, w) =
           (let c = CreateShell (ident b) d
                      (case margin of None \<Rightarrow> PNum (SFloat 0) | Some x \<Rightarrow> x)
                      (ArrI ks)
                      (case progression of None \<Rightarrow> PNum (SFloat 0x3FF0000000000000) | Some x \<Rightarrow> x);
                r = respond env (trace w) c
            in (r, b, w\<lparr>trace := trace w @ [(c, r)]\<rparr>)) \<and>
         length ks = length (case n of None \<Rightarrow> [SInt 0, SInt 0, SInt 0] | Some xs \<Rightarrow> xs)"
proof -
  have "coerce_all (to_int32 env) (arg_or [SInt 0, SInt 0, SInt 0] n) = Inr ks"
    using assms by (simp add: coerce_all_Inr_iff arg_or_def)
  moreover have "length ks = length (case n of None \<Rightarrow> [SInt 0, SInt 0, SInt 0] | Some xs \<Rightarrow> xs)"
    using assms by (metis length_map)
  ultimately show ?thesis
    by (simp add: create_shell_def numpy_array_i_def invoke_eq arg_or_def float_0_0_def
        float_1_0_def Let_def)
qed

theorem create_shell_witness:
  "map (to_int32 sample_env) [SInt 0, SInt 0, SInt 0] = map Inr [0, 0, 0] \<and>
   create_shell sample_env (PNum (SInt 2)) None None None (mesher0, world0) =
     (Inr PNone, mesher0,
      \<lparr>trace = [(CreateShell 0 (PNum (SInt 2)) (PNum (SFloat 0)) (ArrI [0, 0, 0])
                   (PNum (SFloat 0x3FF0000000000000)), Inr PNone)],
       next_addr = 0\<rparr>) \<and>
   map (to_int32 sample_env) [SInt 10, SInt 10, SInt 10] = map Inr [10, 10, 10] \<and>
   create_shell sample_env (PNum (SInt 2)) (Some (PNum (SFloat 0x3FB999999999999A)))
       (Some [SInt 10, SInt 10, SInt 10]) None (mesher0, world0) =
     (Inr PNone, mesher0,
      \<lparr>trace = [(CreateShell 0 (PNum (SInt 2)) (PNum (SFloat 0x3FB999999999999A))
                   (ArrI [10, 10, 10]) (PNum (SFloat 0x3FF0000000000000)), Inr PNone)],
       next_addr = 0\<rparr>)"
proof -
  have h1: "map (to_int32 sample_env) (case None of None \<Rightarrow> [SInt 0, SInt 0, SInt 0] | Some xs \<Rightarrow> xs)
              = map Inr [0, 0, 0]"
    by (simp add: sample_env_def)
  have h2: "map (to_int32 sample_env)
              (case Some [SInt 10, SInt 10, SInt 10] of None \<Rightarrow> [SInt 0, SInt 0, SInt 0] | Some xs \<Rightarrow> xs)
              = map Inr [10, 10, 10]"
    by (simp add: sample_env_def)
  have r: "respond sample_env [] (CreateShell 0 d m (ArrI ks) p) = Inr PNone" for d m ks p
    by (simp add: sample_env_def)
  show ?thesis
    using h1 h2
      create_shell_forwards_with_defaults [OF h1, where d = "PNum (SInt 2)" and margin = None
        and progression = None and b = mesher0 and w = world0]
      create_shell_forwards_with_defaults [OF h2, where d = "PNum (SInt 2)"
        and margin = "Some (PNum (SFloat 0x3FB999999999999A))"
        and progression = None and b = mesher0 and w = world0]
    by (simp add: r world0_def mesher0_def Let_def)
qed

section \<open>The dispatch of Mesh\<close>

text \<open>
  The pattern \<^verbatim>\<open>.*[.]xml$\<close> stands for the test "the path ends in \<^verbatim>\<open>.xml\<close>". On
  a path with no newline in it the two agree. They differ on exactly two kinds of path:
  a newline-free text ending in \<^verbatim>\<open>.xml\<close> followed by one final newline, which the
  pattern matches although the path does not end in \<^verbatim>\<open>.xml\<close>, since \<^verbatim>\<open>$\<close> also
  holds before a final newline; and a path ending in \<^verbatim>\<open>.xml\<close> with a newline in it,
  which the pattern does not match, since \<^verbatim>\<open>.\<close> matches no newline.
\<close>

lemma xml_pattern_newline_free:
  assumes "newline \<notin> set s"
  shows "re_match xml_pattern s = endswith s ''.xml''"
proof -
  have "\<not> xml_then_newline s"
    using assms by (metis last_in_set xml_then_newline_def)
  then show ?thesis using assms by (simp add: xml_pattern_iff)
qed

lemma xml_then_newline_no_suffix: "xml_then_newline s \<Longrightarrow> \<not> endswith s ''.xml''"
proof
  assume a: "xml_then_newline s" and e: "endswith s ''.xml''"
  from a have "s \<noteq> []" "last s = newline" by (simp_all add: xml_then_newline_def)
  moreover from e have "s = take (length s - length ''.xml'') s @ ''.xml''"
    by (metis append_take_drop_id endswith_def)
  then have "last s = CHR ''l''" by (metis last_appendR last_snoc list.discI append_Cons append_Nil)
  ultimately show False by (simp add: newline_def)
qed

lemma xml_pattern_differs:
  "re_match xml_pattern s \<noteq> endswith s ''.xml'' \<longleftrightarrow>
     xml_then_newline s \<or> (endswith s ''.xml'' \<and> newline \<in> set s)"
  using xml_then_newline_no_suffix [of s] by (auto simp: xml_pattern_iff)

text \<open>
  C1. A call of \<^verbatim>\<open>Mesh\<close> with one positional argument, a string that does not end
  in \<^verbatim>\<open>.xml\<close>, is to construct a \<^verbatim>\<open>Mesher\<close>, read the file with it, call
  \<^verbatim>\<open>mesh()\<close> and return the mesh. The code does not do so for the path
  \<^verbatim>\<open>"model.xml\n"\<close>: the path does not end in \<^verbatim>\<open>.xml\<close>, yet the pattern matches it,
  and the one call made is the constructor of the mesh container with the path; no mesher
  is constructed and no file is read.
\<close>

theorem Mesh_newline_after_xml_bypasses:
  "\<not> endswith (''model.xml'' @ [newline]) ''.xml'' \<and>
   Mesh sample_env [PStr (''model.xml'' @ [newline])] [] world0 =
     (Inr (PRef 0),
      \<lparr>trace = [(DolfinMesh 0 [PStr (''model.xml'' @ [newline])] [], Inr PNone)],
       next_addr = 1\<rparr>)"
  by (simp add: endswith_def newline_def Mesh_def xml_pattern_def route_defs sample_defs)

text \<open>
  C2. A call of \<^verbatim>\<open>Mesh\<close> with one positional argument ending in \<^verbatim>\<open>.xml\<close> is to
  forward its arguments to the constructor of the mesh container and call nothing of the
  mesher or the engine. The code does not do so for the path \<^verbatim>\<open>"a\nb.xml"\<close>: the
  path ends in \<^verbatim>\<open>.xml\<close>, yet the pattern does not match it, a mesher is constructed,
  the file is read through the engine and meshed, and the constructor of the mesh
  container never gets the path.
\<close>

theorem Mesh_newline_before_xml_uses_Mesher:
  "endswith (''a'' @ [newline] @ ''b.xml'') ''.xml'' \<and>
   Mesh sample_env [PStr (''a'' @ [newline] @ ''b.xml'')] [] world0 =
     (Inr (PRef 1),
      \<lparr>trace = [(MesherInit 0, Inr PNone),
                (ReadFile 0 (PStr (''a'' @ [newline] @ ''b.xml'')), Inr PNone),
                (DolfinMesh 1 [] [], Inr PNone),
                (EngineMesh 0 (PRef 1) (PNum (SFloat 0x3FF0000000000000)), Inr PNone)],
       next_addr = 2\<rparr>)"
  by (simp add: endswith_def newline_def Mesh_def xml_pattern_def route_defs sample_defs)

text \<open>
  C10. A call of \<^verbatim>\<open>Mesh\<close> with one positional argument that does not end in
  \<^verbatim>\<open>.xml\<close> and with keyword arguments is to go through a \<^verbatim>\<open>Mesher\<close> and drop
  the keyword arguments. The code does not do so for the path \<^verbatim>\<open>"mesh.xml\n"\<close> with
  the keyword argument \<^verbatim>\<open>comm\<close>: the path does not end in \<^verbatim>\<open>.xml\<close>, yet the
  pattern matches it, and the one call made is the constructor of the mesh container with
  the path and the keyword argument.
\<close>

theorem Mesh_keywords_reach_constructor:
  "\<not> endswith (''mesh.xml'' @ [newline]) ''.xml'' \<and>
   Mesh sample_env [PStr (''mesh.xml'' @ [newline])] [(''comm'', PRef 5)] world0 =
     (Inr (PRef 0),
      \<lparr>trace = [(DolfinMesh 0 [PStr (''mesh.xml'' @ [newline])] [(''comm'', PRef 5)], Inr PNone)],
       next_addr = 1\<rparr>)"
  by (simp add: endswith_def newline_def Mesh_def xml_pattern_def route_defs sample_defs)

section \<open>Exceptions of the collaborators\<close>

lemma propagated_Cons:
  "propagated r ((c, a) # evs) =
     (case a of Inl e \<Rightarrow> evs = [] \<and> r = Inl e | Inr v \<Rightarrow> propagated r evs)"
  by (cases a; cases r) auto

lemma run_op_propagates:
  "run_op env p (b, w) = (r, b', w') \<Longrightarrow>
     trace w' = trace w @ new_events w w' \<and> propagated r (new_events w w')"
  by (cases p)
    (auto simp: op_defs numpy_array_d_def numpy_array_i_def dolfin_Mesh_def invoke_eq
       new_events_def Let_def propagated_Cons split: sum.splits prod.splits if_splits)

lemma Mesher_init_propagates:
  "Mesher_init env w = (r, w') \<Longrightarrow>
     trace w' = trace w @ new_events w w' \<and> propagated r (new_events w w')"
  by (auto simp: Mesher_init_def invoke_eq new_events_def Let_def propagated_Cons split: sum.splits)

lemma dolfin_Mesh_propagates:
  "dolfin_Mesh env args kwargs w = (r, w') \<Longrightarrow>
     trace w' = trace w @ new_events w w' \<and> propagated r (new_events w w')"
  by (auto simp: dolfin_Mesh_def invoke_eq new_events_def Let_def propagated_Cons split: sum.splits)

lemma Mesh_propagates:
  "Mesh env args kwargs w = (r, w') \<Longrightarrow>
     trace w' = trace w @ new_events w w' \<and> propagated r (new_events w w')"
  by (auto simp: Mesh_def Mesher_init_def read_file_def mesh_def dolfin_Mesh_def invoke_eq
       arg_or_def new_events_def Let_def propagated_Cons
       split: sum.splits prod.splits if_splits list.splits pyval.splits)

text \<open>
  C8. In every method of \<^verbatim>\<open>Mesher\<close>, in its construction and in \<^verbatim>\<open>Mesh\<close>, a
  call of the engine or of the mesh container that raises is the last call made, and the
  exception it raised is the result: nothing is caught, tried again or replaced.
\<close>

theorem engine_errors_reach_the_caller:
  "(case run_op env p (b, w) of
      (r, b', w') \<Rightarrow> trace w' = trace w @ new_events w w' \<and> propagated r (new_events w w')) \<and>
   (case Mesher_init env w of
      (r, w') \<Rightarrow> trace w' = trace w @ new_events w w' \<and> propagated r (new_events w w')) \<and>
   (case Mesh env args kwargs w of
      (r, w') \<Rightarrow> trace w' = trace w @ new_events w w' \<and> propagated r (new_events w w'))"
proof -
  obtain r1 b1 w1 where 1: "run_op env p (b, w) = (r1, b1, w1)" by (metis prod_cases3)
  obtain r2 w2 where 2: "Mesher_init env w = (r2, w2)" by (metis surj_pair)
  obtain r3 w3 where 3: "Mesh env args kwargs w = (r3, w3)" by (metis surj_pair)
  show ?thesis
    using run_op_propagates [OF 1] Mesher_init_propagates [OF 2] Mesh_propagates [OF 3]
    by (simp add: 1 2 3)
qed

theorem engine_errors_witness:
  "run_op broken_env (OpMesh None None) (mesher0, world0) =
     (Inl (Raised ()), mesher0,
      \<lparr>trace = [(DolfinMesh 0 [] [], Inr PNone),
                (EngineMesh 0 (PRef 0) (PNum (SFloat 0x3FF0000000000000)), Inl (Raised ()))],
       next_addr = 1\<rparr>) \<and>
   Mesh broken_env [PStr ''model.stl''] [] world0 =
     (Inl (Raised ()),
      \<lparr>trace = [(MesherInit 0, Inr PNone), (ReadFile 0 (PStr ''model.stl''), Inl (Raised ()))],
       next_addr = 1\<rparr>) \<and>
   propagated (Inl (Raised ()) :: unit exn + pyval)
     (new_events world0 (snd (Mesh broken_env [PStr ''model.stl''] [] world0)))"
proof -
  have a: "run_op broken_env (OpMesh None None) (mesher0, world0) =
     (Inl (Raised ()), mesher0,
      \<lparr>trace = [(DolfinMesh 0 [] [], Inr PNone),
                (EngineMesh 0 (PRef 0) (PNum (SFloat 0x3FF0000000000000)), Inl (Raised ()))],
       next_addr = 1\<rparr>)"
    by (simp add: route_defs sample_defs)
  have b: "Mesh broken_env [PStr ''model.stl''] [] world0 =
     (Inl (Raised ()),
      \<lparr>trace = [(MesherInit 0, Inr PNone), (ReadFile 0 (PStr ''model.stl''), Inl (Raised ()))],
       next_addr = 1\<rparr>)"
    by (simp add: Mesh_def xml_pattern_def newline_def route_defs sample_defs)
  show ?thesis
    using engine_errors_reach_the_caller
      [where env = broken_env and p = "OpMesh None None" and b = mesher0 and w = world0
         and args = "[PStr ''model.stl'']" and kwargs = "[]"]
    unfolding a b by simp
qed

end
